theory Spec2Isabelle
  imports Main
begin

section \<open>JavaScript values\<close>

text \<open>
  The route handler of \<^verbatim>\<open>SyncRoutes.ts\<close> inspects its data dynamically
  (\<^verbatim>\<open>typeof\<close>, \<^verbatim>\<open>||\<close>, \<^verbatim>\<open>Array.isArray\<close>, \<^verbatim>\<open>JSON.stringify\<close>), so request bodies and
  datastore rows are modelled as untyped JavaScript data: the values that a parsed JSON body
  or a database row can hold, plus \<^verbatim>\<open>undefined\<close> for an absent property.
  Numbers are the integer-valued ones that JavaScript prints in plain decimal notation (no
  fraction, no exponent, no \<^verbatim>\<open>NaN\<close>); string characters are the 8-bit characters of HOL.
\<close>

datatype jsval =
    JUndefined
  | JNull
  | JBool bool
  | JNum int
  | JStr string
  | JArr "jsval list"
  | JObj "(string \<times> jsval) list"

text \<open>The \<^verbatim>\<open>typeof\<close> operator.\<close>

fun typeof :: "jsval \<Rightarrow> string" where
  "typeof JUndefined = ''undefined''"
| "typeof JNull = ''object''"
| "typeof (JBool b) = ''boolean''"
| "typeof (JNum n) = ''number''"
| "typeof (JStr s) = ''string''"
| "typeof (JArr vs) = ''object''"
| "typeof (JObj kvs) = ''object''"

text \<open>\<^verbatim>\<open>ToBoolean\<close>: the falsy values are \<^verbatim>\<open>undefined\<close>, \<^verbatim>\<open>null\<close>, \<^verbatim>\<open>false\<close>, \<^verbatim>\<open>0\<close> and
  the empty string.\<close>

fun truthy :: "jsval \<Rightarrow> bool" where
  "truthy JUndefined = False"
| "truthy JNull = False"
| "truthy (JBool b) = b"
| "truthy (JNum n) = (n \<noteq> 0)"
| "truthy (JStr s) = (s \<noteq> [])"
| "truthy (JArr vs) = True"
| "truthy (JObj kvs) = True"

text \<open>\<^verbatim>\<open>a || b\<close> yields \<^verbatim>\<open>a\<close> itself when it is truthy, and \<^verbatim>\<open>b\<close> otherwise.\<close>

definition js_or :: "jsval \<Rightarrow> jsval \<Rightarrow> jsval" where
  "js_or a b = (if truthy a then a else b)"

fun isArray :: "jsval \<Rightarrow> bool" where
  "isArray (JArr vs) = True"
| "isArray v = False"

text \<open>\<^verbatim>\<open>ids.length\<close> and \<^verbatim>\<open>ids.slice(0, n)\<close>; the handler evaluates them on arrays only
  (the validation has returned before for anything else).\<close>

fun array_length :: "jsval \<Rightarrow> nat" where
  "array_length (JArr vs) = length vs"
| "array_length v = 0"

fun array_slice0 :: "nat \<Rightarrow> jsval \<Rightarrow> jsval" where
  "array_slice0 n (JArr vs) = JArr (take n vs)"
| "array_slice0 n v = v"

text \<open>The request body is an object, a finite map from property names to values; reading a
  property that the object does not have gives \<^verbatim>\<open>undefined\<close>.\<close>

definition get_prop :: "(string \<rightharpoonup> jsval) \<Rightarrow> string \<Rightarrow> jsval" where
  "get_prop obj k = (case obj k of None \<Rightarrow> JUndefined | Some v \<Rightarrow> v)"

section \<open>Number and string conversion, \<^verbatim>\<open>JSON.stringify\<close>\<close>

definition digit_char :: "nat \<Rightarrow> char" where
  "digit_char d = ''0123456789'' ! (d mod 10)"

fun digits :: "nat \<Rightarrow> string" where
  "digits n = (if n < 10 then [digit_char n] else digits (n div 10) @ [digit_char (n mod 10)])"

declare digits.simps [simp del]

text \<open>\<^verbatim>\<open>Number::toString\<close> on an integer-valued number: the decimal digits, with a minus
  sign for a negative one. Template literals and \<^verbatim>\<open>JSON.stringify\<close> both use it.\<close>

definition NumberToString :: "int \<Rightarrow> string" where
  "NumberToString n = (if n < 0 then CHR ''-'' # digits (nat (- n)) else digits (nat n))"

definition dquote :: char where
  "dquote = CHR 0x22"

definition backslash :: char where
  "backslash = CHR 0x5C"

definition hex_char :: "nat \<Rightarrow> char" where
  "hex_char d = ''0123456789abcdef'' ! (d mod 16)"

text \<open>\<^verbatim>\<open>QuoteJSONString\<close> of ECMA-262: the two-character escapes, \<^verbatim>\<open>\u00XX\<close> for the other
  control characters, every other character as it is.\<close>

definition quote_char :: "char \<Rightarrow> string" where
  "quote_char c =
     (if c = CHR 0x08 then [backslash, CHR ''b'']
      else if c = CHR 0x09 then [backslash, CHR ''t'']
      else if c = CHR 0x0A then [backslash, CHR ''n'']
      else if c = CHR 0x0C then [backslash, CHR ''f'']
      else if c = CHR 0x0D then [backslash, CHR ''r'']
      else if c = dquote then [backslash, dquote]
      else if c = backslash then [backslash, backslash]
      else if (of_char c :: nat) < 0x20
        then [backslash, CHR ''u'', CHR ''0'', CHR ''0'',
              hex_char (of_char c div 16), hex_char (of_char c mod 16)]
      else [c])"

definition QuoteJSONString :: "string \<Rightarrow> string" where
  "QuoteJSONString s = dquote # concat (map quote_char s) @ [dquote]"

text \<open>\<^verbatim>\<open>Array.prototype.join\<close> on texts.\<close>

fun join :: "string \<Rightarrow> string list \<Rightarrow> string" where
  "join sep [] = []"
| "join sep [x] = x"
| "join sep (x # y # ys) = x @ sep @ join sep (y # ys)"

text \<open>
  \<^verbatim>\<open>SerializeJSONProperty\<close> of ECMA-262 (no replacer, no indentation): \<open>None\<close> stands for the
  result \<^verbatim>\<open>undefined\<close>. An \<^verbatim>\<open>undefined\<close> element of an array is written \<^verbatim>\<open>null\<close>; a property
  whose value is \<^verbatim>\<open>undefined\<close> is left out of its object.
\<close>

fun SerializeJSONProperty :: "jsval \<Rightarrow> string option" where
  "SerializeJSONProperty JUndefined = None"
| "SerializeJSONProperty JNull = Some ''null''"
| "SerializeJSONProperty (JBool b) = Some (if b then ''true'' else ''false'')"
| "SerializeJSONProperty (JNum n) = Some (NumberToString n)"
| "SerializeJSONProperty (JStr s) = Some (QuoteJSONString s)"
| "SerializeJSONProperty (JArr vs) =
     Some (''['' @
           join '',''
             (map (\<lambda>v. case SerializeJSONProperty v of None \<Rightarrow> ''null'' | Some t \<Rightarrow> t) vs) @
           '']'')"
| "SerializeJSONProperty (JObj kvs) =
     Some (''{'' @
           join '',''
             (concat
               (map (\<lambda>(k, v). case SerializeJSONProperty v of
                                 None \<Rightarrow> []
                               | Some t \<Rightarrow> [QuoteJSONString k @ '':'' @ t]) kvs)) @
           ''}'')"

text \<open>\<^verbatim>\<open>JSON.stringify(v)\<close> returns a string, or \<^verbatim>\<open>undefined\<close> for \<^verbatim>\<open>undefined\<close>.\<close>

definition JSON_stringify :: "jsval \<Rightarrow> jsval" where
  "JSON_stringify v = (case SerializeJSONProperty v of None \<Rightarrow> JUndefined | Some t \<Rightarrow> JStr t)"

section \<open>Records and documents\<close>

text \<open>
  A row as \<^verbatim>\<open>sessionStore.getObservationsByIds\<close> returns it. The handler reads these
  properties of \<^verbatim>\<open>obs\<close>; each one may hold any value, \<^verbatim>\<open>undefined\<close> when it is absent.
\<close>

record observation =
  obs_id :: jsval
  obs_memory_session_id :: jsval
  obs_project :: jsval
  obs_type :: jsval
  obs_title :: jsval
  obs_subtitle :: jsval
  obs_facts :: jsval
  obs_narrative :: jsval
  obs_concepts :: jsval
  obs_files_read :: jsval
  obs_files_modified :: jsval
  obs_prompt_number :: jsval
  obs_discovery_tokens :: jsval
  obs_created_at :: jsval
  obs_created_at_epoch :: jsval

text \<open>The object literal built for \<^verbatim>\<open>ChromaSync\<close> (the StoredObservation format).\<close>

record stored_observation =
  stored_id :: jsval
  stored_memory_session_id :: jsval
  stored_project :: jsval
  stored_text :: jsval
  stored_type :: jsval
  stored_title :: jsval
  stored_subtitle :: jsval
  stored_facts :: jsval
  stored_narrative :: jsval
  stored_concepts :: jsval
  stored_files_read :: jsval
  stored_files_modified :: jsval
  stored_prompt_number :: jsval
  stored_discovery_tokens :: jsval
  stored_created_at :: jsval
  stored_created_at_epoch :: jsval

text \<open>The callback of \<^verbatim>\<open>observations.map\<close> (lines 55 to 72).\<close>

definition toStoredObservation :: "observation \<Rightarrow> stored_observation" where
  "toStoredObservation obs =
     \<lparr> stored_id = obs_id obs,
       stored_memory_session_id = obs_memory_session_id obs,
       stored_project = obs_project obs,
       stored_text = JNull,
       stored_type = obs_type obs,
       stored_title = obs_title obs,
       stored_subtitle = obs_subtitle obs,
       stored_facts =
         (if typeof (obs_facts obs) = ''string'' then obs_facts obs
          else JSON_stringify (js_or (obs_facts obs) (JArr []))),
       stored_narrative = obs_narrative obs,
       stored_concepts =
         (if typeof (obs_concepts obs) = ''string'' then obs_concepts obs
          else JSON_stringify (js_or (obs_concepts obs) (JArr []))),
       stored_files_read =
         (if typeof (obs_files_read obs) = ''string'' then obs_files_read obs
          else JSON_stringify (js_or (obs_files_read obs) (JArr []))),
       stored_files_modified =
         (if typeof (obs_files_modified obs) = ''string'' then obs_files_modified obs
          else JSON_stringify (js_or (obs_files_modified obs) (JArr []))),
       stored_prompt_number = js_or (obs_prompt_number obs) (JNum 0),
       stored_discovery_tokens = js_or (obs_discovery_tokens obs) (JNum 0),
       stored_created_at = obs_created_at obs,
       stored_created_at_epoch = obs_created_at_epoch obs \<rparr>"

section \<open>The route handler\<close>

text \<open>
  A thrown value is an \<^verbatim>\<open>Error\<close> with its message. The two collaborators are parameters of
  the handler: the datastore lookup returns the rows or throws, the embedding call resolves to
  a count or rejects. Every call the handler makes on a collaborator or on the logger is
  recorded, in order, in a list of events; the response is what the handler sends
  (\<^verbatim>\<open>this.badRequest\<close>, \<^verbatim>\<open>res.json\<close>, \<^verbatim>\<open>this.serverError\<close>).
\<close>

datatype js_error = Error (message: string)

type_synonym session_store = "jsval \<Rightarrow> jsval \<Rightarrow> js_error + observation list"

type_synonym chroma_sync = "stored_observation list \<Rightarrow> js_error + int"

datatype event =
    LoggerInfo string string jsval
  | LoggerError string string jsval
  | GetObservationsByIds jsval jsval
  | SyncStoredObservations "stored_observation list"

datatype response =
    BadRequest string
  | ResJson jsval
  | ServerError string

text \<open>The \<^verbatim>\<open>catch\<close> block (lines 80 to 83).\<close>

definition catch_block :: "js_error \<Rightarrow> response \<times> event list" where
  "catch_block e =
     (ServerError (''Sync failed: '' @ message e),
      [LoggerError ''SYNC'' ''Failed to sync observations'' (JObj [(''error'', JStr (message e))])])"

definition handleSyncObservations ::
    "session_store \<Rightarrow> chroma_sync \<Rightarrow> (string \<rightharpoonup> jsval) \<Rightarrow> response \<times> event list" where
  "handleSyncObservations getObservationsByIds syncStoredObservations body =
     (let ids = get_prop body ''ids'' in
      if \<not> truthy ids \<or> \<not> isArray ids \<or> array_length ids = 0
      then (BadRequest ''ids array is required'', [])
      else
        let log1 = LoggerInfo ''SYNC''
                     (''Syncing '' @ NumberToString (int (array_length ids)) @
                      '' observations to ChromaDB'')
                     (JObj [(''ids'', array_slice0 5 ids)]);
            read1 = GetObservationsByIds ids (JObj [])
        in
          case getObservationsByIds ids (JObj []) of
            Inl e \<Rightarrow> (fst (catch_block e), [log1, read1] @ snd (catch_block e))
          | Inr observations \<Rightarrow>
              if length observations = 0
              then (ResJson (JObj [(''success'', JBool True), (''embeddedCount'', JNum 0),
                                   (''message'', JStr ''No observations found for given IDs'')]),
                    [log1, read1])
              else
                let storedObservations = map toStoredObservation observations;
                    write1 = SyncStoredObservations storedObservations
                in
                  (case syncStoredObservations storedObservations of
                     Inl e \<Rightarrow> (fst (catch_block e), [log1, read1, write1] @ snd (catch_block e))
                   | Inr embeddedCount \<Rightarrow>
                       (ResJson (JObj [(''success'', JBool True),
                                       (''embeddedCount'', JNum embeddedCount)]),
                        [log1, read1, write1,
                         LoggerInfo ''SYNC''
                           (''Synced '' @ NumberToString embeddedCount @ ''/'' @
                            NumberToString (int (length observations)) @ '' observations'')
                           JUndefined])))"

text \<open>The calls on the two collaborators, the logger left aside.\<close>

fun is_read :: "event \<Rightarrow> bool" where
  "is_read (GetObservationsByIds ids opts) = True"
| "is_read ev = False"

fun is_write :: "event \<Rightarrow> bool" where
  "is_write (SyncStoredObservations docs) = True"
| "is_write ev = False"

fun is_log :: "event \<Rightarrow> bool" where
  "is_log (LoggerInfo c m d) = True"
| "is_log (LoggerError c m d) = True"
| "is_log ev = False"

definition reads :: "event list \<Rightarrow> event list" where
  "reads evs = filter is_read evs"

definition writes :: "event list \<Rightarrow> event list" where
  "writes evs = filter is_write evs"

section \<open>The callback on a row as JavaScript reads it\<close>

text \<open>
  The record above fixes that a row is an object. JavaScript itself does not: the callback
  reads the properties of whatever value \<^verbatim>\<open>obs\<close> is, and a property read is the one step of
  lines 55 to 72 that can throw. Here the callback is written once more on an arbitrary
  value, with the thrown error as a result: reading a property of \<^verbatim>\<open>undefined\<close> or \<^verbatim>\<open>null\<close>
  throws a \<^verbatim>\<open>TypeError\<close>, reading a property that an object does not have gives
  \<^verbatim>\<open>undefined\<close>, and so does reading one of these names on a boolean, a number, a string or
  an array. \<^verbatim>\<open>typeof\<close> and \<^verbatim>\<open>||\<close> never throw; \<^verbatim>\<open>JSON.stringify\<close> throws on a \<^verbatim>\<open>BigInt\<close> and on
  a cyclic structure only, and neither is a value of \<open>jsval\<close>.
\<close>

definition own_property :: "(string \<times> jsval) list \<Rightarrow> string \<Rightarrow> jsval" where
  "own_property kvs k = (case map_of kvs k of None \<Rightarrow> JUndefined | Some v \<Rightarrow> v)"

definition get_member :: "jsval \<Rightarrow> string \<Rightarrow> js_error + jsval" where
  "get_member v k =
     (case v of
        JUndefined \<Rightarrow> Inl (Error (''TypeError: Cannot read properties of undefined, reading '' @ k))
      | JNull \<Rightarrow> Inl (Error (''TypeError: Cannot read properties of null, reading '' @ k))
      | JObj kvs \<Rightarrow> Inr (own_property kvs k)
      | _ \<Rightarrow> Inr JUndefined)"

text \<open>Sequencing: a throw ends the evaluation, a value goes on to the rest.\<close>

definition then_do :: "js_error + 'a \<Rightarrow> ('a \<Rightarrow> js_error + 'b) \<Rightarrow> js_error + 'b" where
  "then_do m f = (case m of Inl e \<Rightarrow> Inl e | Inr x \<Rightarrow> f x)"

text \<open>The expression \<^verbatim>\<open>typeof obs.k === 'string' ? obs.k : JSON.stringify(obs.k || [])\<close> of
  lines 63 and 65 to 67, and \<^verbatim>\<open>obs.k || 0\<close> of lines 68 and 69; each reads the property anew.\<close>

definition collection_expr :: "jsval \<Rightarrow> string \<Rightarrow> js_error + jsval" where
  "collection_expr obs k =
     then_do (get_member obs k) (\<lambda>a.
       if typeof a = ''string'' then get_member obs k
       else then_do (get_member obs k) (\<lambda>b. Inr (JSON_stringify (js_or b (JArr [])))))"

definition default_expr :: "jsval \<Rightarrow> string \<Rightarrow> js_error + jsval" where
  "default_expr obs k = then_do (get_member obs k) (\<lambda>a. Inr (js_or a (JNum 0)))"

definition toStoredObservation_js :: "jsval \<Rightarrow> js_error + stored_observation" where
  "toStoredObservation_js obs =
     then_do (get_member obs ''id'') (\<lambda>v_id.
     then_do (get_member obs ''memory_session_id'') (\<lambda>v_memory_session_id.
     then_do (get_member obs ''project'') (\<lambda>v_project.
     then_do (get_member obs ''type'') (\<lambda>v_type.
     then_do (get_member obs ''title'') (\<lambda>v_title.
     then_do (get_member obs ''subtitle'') (\<lambda>v_subtitle.
     then_do (collection_expr obs ''facts'') (\<lambda>v_facts.
     then_do (get_member obs ''narrative'') (\<lambda>v_narrative.
     then_do (collection_expr obs ''concepts'') (\<lambda>v_concepts.
     then_do (collection_expr obs ''files_read'') (\<lambda>v_files_read.
     then_do (collection_expr obs ''files_modified'') (\<lambda>v_files_modified.
     then_do (default_expr obs ''prompt_number'') (\<lambda>v_prompt_number.
     then_do (default_expr obs ''discovery_tokens'') (\<lambda>v_discovery_tokens.
     then_do (get_member obs ''created_at'') (\<lambda>v_created_at.
     then_do (get_member obs ''created_at_epoch'') (\<lambda>v_created_at_epoch.
       Inr \<lparr> stored_id = v_id,
             stored_memory_session_id = v_memory_session_id,
             stored_project = v_project,
             stored_text = JNull,
             stored_type = v_type,
             stored_title = v_title,
             stored_subtitle = v_subtitle,
             stored_facts = v_facts,
             stored_narrative = v_narrative,
             stored_concepts = v_concepts,
             stored_files_read = v_files_read,
             stored_files_modified = v_files_modified,
             stored_prompt_number = v_prompt_number,
             stored_discovery_tokens = v_discovery_tokens,
             stored_created_at = v_created_at,
             stored_created_at_epoch = v_created_at_epoch \<rparr>)))))))))))))))"

text \<open>\<^verbatim>\<open>observations.map(callback)\<close>: the first throw of the callback ends the loop.\<close>

fun array_map :: "('a \<Rightarrow> js_error + 'b) \<Rightarrow> 'a list \<Rightarrow> js_error + 'b list" where
  "array_map f [] = Inr []"
| "array_map f (x # xs) =
     (case f x of
        Inl e \<Rightarrow> Inl e
      | Inr y \<Rightarrow> (case array_map f xs of Inl e \<Rightarrow> Inl e | Inr ys \<Rightarrow> Inr (y # ys)))"

text \<open>The record of an object row: each field is the property of that name, \<^verbatim>\<open>undefined\<close> when
  the object does not have it.\<close>

definition row_of :: "(string \<times> jsval) list \<Rightarrow> observation" where
  "row_of kvs =
     \<lparr> obs_id = own_property kvs ''id'',
       obs_memory_session_id = own_property kvs ''memory_session_id'',
       obs_project = own_property kvs ''project'',
       obs_type = own_property kvs ''type'',
       obs_title = own_property kvs ''title'',
       obs_subtitle = own_property kvs ''subtitle'',
       obs_facts = own_property kvs ''facts'',
       obs_narrative = own_property kvs ''narrative'',
       obs_concepts = own_property kvs ''concepts'',
       obs_files_read = own_property kvs ''files_read'',
       obs_files_modified = own_property kvs ''files_modified'',
       obs_prompt_number = own_property kvs ''prompt_number'',
       obs_discovery_tokens = own_property kvs ''discovery_tokens'',
       obs_created_at = own_property kvs ''created_at'',
       obs_created_at_epoch = own_property kvs ''created_at_epoch'' \<rparr>"

section \<open>JSON texts\<close>

text \<open>
  What a serialized value must look like is the grammar of RFC 8259, written as inductive
  predicates on texts: insignificant whitespace, numbers, strings with their escapes, and
  the mutually recursive values, arrays and objects. \<open>serialized_array_text\<close> holds of a
  JSON text whose value is an array.
\<close>

definition json_ws :: "string \<Rightarrow> bool" where
  "json_ws w = list_all (\<lambda>c. c = CHR 0x20 \<or> c = CHR 0x09 \<or> c = CHR 0x0A \<or> c = CHR 0x0D) w"

definition is_digit :: "char \<Rightarrow> bool" where
  "is_digit c = (c \<in> set ''0123456789'')"

definition is_hex :: "char \<Rightarrow> bool" where
  "is_hex c = (c \<in> set ''0123456789abcdefABCDEF'')"

definition json_int :: "string \<Rightarrow> bool" where
  "json_int s =
     (case s of
        [] \<Rightarrow> False
      | d # ds \<Rightarrow> if d = CHR ''0'' then ds = [] else is_digit d \<and> list_all is_digit ds)"

definition json_frac :: "string \<Rightarrow> bool" where
  "json_frac s =
     (case s of
        [] \<Rightarrow> True
      | p # ds \<Rightarrow> p = CHR ''.'' \<and> ds \<noteq> [] \<and> list_all is_digit ds)"

definition json_exp :: "string \<Rightarrow> bool" where
  "json_exp s =
     (case s of
        [] \<Rightarrow> True
      | e # r \<Rightarrow>
          (e = CHR ''e'' \<or> e = CHR ''E'') \<and>
          (case r of
             [] \<Rightarrow> False
           | g # ds \<Rightarrow>
               if g = CHR ''+'' \<or> g = CHR ''-'' then ds \<noteq> [] \<and> list_all is_digit ds
               else list_all is_digit r))"

inductive json_number :: "string \<Rightarrow> bool" where
  number: "sg = [] \<or> sg = ''-'' \<Longrightarrow> json_int i \<Longrightarrow> json_frac f \<Longrightarrow> json_exp e \<Longrightarrow>
             json_number (sg @ i @ f @ e)"

inductive json_chars :: "string \<Rightarrow> bool" where
  chars_end: "json_chars []"
| chars_plain: "c \<noteq> dquote \<Longrightarrow> c \<noteq> backslash \<Longrightarrow> (0x20::nat) \<le> of_char c \<Longrightarrow> json_chars s \<Longrightarrow>
      json_chars (c # s)"
| chars_escape: "e \<in> set [dquote, backslash, CHR ''/'', CHR ''b'', CHR ''f'', CHR ''n'', CHR ''r'', CHR ''t''] \<Longrightarrow>
      json_chars s \<Longrightarrow> json_chars (backslash # e # s)"
| chars_unicode: "is_hex a \<Longrightarrow> is_hex b \<Longrightarrow> is_hex c \<Longrightarrow> is_hex d \<Longrightarrow> json_chars s \<Longrightarrow>
      json_chars (backslash # CHR ''u'' # a # b # c # d # s)"

inductive json_string :: "string \<Rightarrow> bool" where
  string: "json_chars s \<Longrightarrow> json_string (dquote # s @ [dquote])"

inductive json_value :: "string \<Rightarrow> bool"
  and json_array :: "string \<Rightarrow> bool"
  and json_elements :: "string \<Rightarrow> bool"
  and json_object :: "string \<Rightarrow> bool"
  and json_members :: "string \<Rightarrow> bool"
where
  value_null: "json_value ''null''"
| value_true: "json_value ''true''"
| value_false: "json_value ''false''"
| value_number: "json_number s \<Longrightarrow> json_value s"
| value_string: "json_string s \<Longrightarrow> json_value s"
| value_array: "json_array s \<Longrightarrow> json_value s"
| value_object: "json_object s \<Longrightarrow> json_value s"
| array_empty: "json_ws w \<Longrightarrow> json_array (''['' @ w @ '']'')"
| array_elements: "json_elements b \<Longrightarrow> json_array (''['' @ b @ '']'')"
| elements_one: "json_ws w1 \<Longrightarrow> json_value v \<Longrightarrow> json_ws w2 \<Longrightarrow> json_elements (w1 @ v @ w2)"
| elements_more: "json_ws w1 \<Longrightarrow> json_value v \<Longrightarrow> json_ws w2 \<Longrightarrow> json_elements r \<Longrightarrow>
      json_elements (w1 @ v @ w2 @ '','' @ r)"
| object_empty: "json_ws w \<Longrightarrow> json_object (''{'' @ w @ ''}'')"
| object_members: "json_members b \<Longrightarrow> json_object (''{'' @ b @ ''}'')"
| members_one: "json_ws w1 \<Longrightarrow> json_string k \<Longrightarrow> json_ws w2 \<Longrightarrow> json_ws w3 \<Longrightarrow> json_value v \<Longrightarrow>
      json_ws w4 \<Longrightarrow> json_members (w1 @ k @ w2 @ '':'' @ w3 @ v @ w4)"
| members_more: "json_ws w1 \<Longrightarrow> json_string k \<Longrightarrow> json_ws w2 \<Longrightarrow> json_ws w3 \<Longrightarrow> json_value v \<Longrightarrow>
      json_ws w4 \<Longrightarrow> json_members r \<Longrightarrow> json_members (w1 @ k @ w2 @ '':'' @ w3 @ v @ w4 @ '','' @ r)"

inductive serialized_array_text :: "string \<Rightarrow> bool" where
  array_text: "json_ws w1 \<Longrightarrow> json_array a \<Longrightarrow> json_ws w2 \<Longrightarrow> serialized_array_text (w1 @ a @ w2)"

section \<open>What the properties speak about\<close>

text \<open>
  A value is absent when the property is missing (\<^verbatim>\<open>undefined\<close>) or the column is
  \<^verbatim>\<open>null\<close>. \<open>collection_text src out\<close> says what the field \<open>out\<close> of the document is for the
  field \<open>src\<close> of the row, case by case: it leaves no choice of \<open>out\<close>.
  \<open>numeric_default\<close> does the same for the two numeric fields, and \<open>document_of obs d\<close> says
  that \<open>d\<close> is the document of the row \<open>obs\<close>, field by field. \<open>member_text\<close> is the shape of
  one serialized property of an object.
\<close>

definition absent :: "jsval \<Rightarrow> bool" where
  "absent v = (v = JUndefined \<or> v = JNull)"

definition collection_text :: "jsval \<Rightarrow> jsval \<Rightarrow> bool" where
  "collection_text src out =
     ((\<exists>t. out = JStr t) \<and>
      (\<forall>s. src = JStr s \<longrightarrow> out = JStr s) \<and>
      (absent src \<longrightarrow> out = JStr ''[]'') \<and>
      (typeof src \<noteq> ''string'' \<and> \<not> truthy src \<longrightarrow> out = JStr ''[]'') \<and>
      (\<forall>vs. src = JArr vs \<longrightarrow>
         out = JSON_stringify (JArr vs) \<and> (\<exists>t. out = JStr t \<and> serialized_array_text t)) \<and>
      (typeof src \<noteq> ''string'' \<and> truthy src \<longrightarrow>
         out = JSON_stringify src \<and> (\<exists>t. out = JStr t \<and> json_value t)))"

definition numeric_default :: "jsval \<Rightarrow> jsval \<Rightarrow> bool" where
  "numeric_default src out =
     ((absent src \<longrightarrow> out = JNum 0) \<and>
      (\<not> truthy src \<longrightarrow> out = JNum 0) \<and>
      (truthy src \<longrightarrow> out = src))"

definition document_of :: "observation \<Rightarrow> stored_observation \<Rightarrow> bool" where
  "document_of obs d =
     (stored_id d = obs_id obs \<and>
      stored_memory_session_id d = obs_memory_session_id obs \<and>
      stored_project d = obs_project obs \<and>
      stored_text d = JNull \<and>
      stored_type d = obs_type obs \<and>
      stored_title d = obs_title obs \<and>
      stored_subtitle d = obs_subtitle obs \<and>
      collection_text (obs_facts obs) (stored_facts d) \<and>
      stored_narrative d = obs_narrative obs \<and>
      collection_text (obs_concepts obs) (stored_concepts d) \<and>
      collection_text (obs_files_read obs) (stored_files_read d) \<and>
      collection_text (obs_files_modified obs) (stored_files_modified d) \<and>
      numeric_default (obs_prompt_number obs) (stored_prompt_number d) \<and>
      numeric_default (obs_discovery_tokens obs) (stored_discovery_tokens d) \<and>
      stored_created_at d = obs_created_at obs \<and>
      stored_created_at_epoch d = obs_created_at_epoch obs)"

definition member_text :: "string \<Rightarrow> bool" where
  "member_text m = (\<exists>k t. m = QuoteJSONString k @ '':'' @ t \<and> json_value t)"

text \<open>
  Inputs for the concrete checks: collaborators with a fixed answer, rows with absent and
  with mixed fields, a request whose ids are not positive integers, and the texts
  \<^verbatim>\<open>["a","b"]\<close> and \<^verbatim>\<open>{"k":1}\<close>.
\<close>

definition store_returning :: "observation list \<Rightarrow> session_store" where
  "store_returning rows ids opts = Inr rows"

definition store_throwing :: "string \<Rightarrow> session_store" where
  "store_throwing m ids opts = Inl (Error m)"

definition chroma_reporting :: "int \<Rightarrow> chroma_sync" where
  "chroma_reporting n docs = Inr n"

definition chroma_rejecting :: "string \<Rightarrow> chroma_sync" where
  "chroma_rejecting m docs = Inl (Error m)"

definition bare_row :: observation where
  "bare_row =
     \<lparr> obs_id = JNum 1, obs_memory_session_id = JStr ''s1'', obs_project = JStr ''p'',
       obs_type = JStr ''discovery'', obs_title = JStr ''t'', obs_subtitle = JUndefined,
       obs_facts = JUndefined, obs_narrative = JUndefined, obs_concepts = JUndefined,
       obs_files_read = JUndefined, obs_files_modified = JUndefined,
       obs_prompt_number = JUndefined, obs_discovery_tokens = JUndefined,
       obs_created_at = JStr ''2025-01-01'', obs_created_at_epoch = JNum 1735689600000 \<rparr>"

definition text_ab :: string where
  "text_ab = ''['' @ [dquote] @ ''a'' @ [dquote] @ '','' @ [dquote] @ ''b'' @ [dquote] @ '']''"

definition text_k1 :: string where
  "text_k1 = ''{'' @ [dquote] @ ''k'' @ [dquote] @ '':1}''"

definition mixed_row :: observation where
  "mixed_row =
     bare_row\<lparr> obs_facts := JArr [JStr ''a'', JStr ''b''],
               obs_concepts := JStr ''x'',
               obs_files_read := JObj [(''k'', JNum 1)],
               obs_files_modified := JNull,
               obs_prompt_number := JNum 7 \<rparr>"

definition mixed_props :: "(string \<times> jsval) list" where
  "mixed_props =
     [(''id'', JNum 1), (''title'', JStr ''t''),
      (''facts'', JArr [JStr ''a'', JStr ''b'']),
      (''concepts'', JStr ''x''),
      (''files_read'', JBool False),
      (''files_modified'', JNull),
      (''prompt_number'', JNum 7)]"

definition five_rows :: "observation list" where
  "five_rows = [bare_row, mixed_row, bare_row, mixed_row, bare_row]"

definition odd_body :: "string \<rightharpoonup> jsval" where
  "odd_body = [''ids'' \<mapsto> JArr [JNum (- 1), JStr ''x'', JNum 2, JNum 2, JNull]]"

section \<open>\<^verbatim>\<open>JSON.stringify\<close> writes JSON texts\<close>

lemma json_ws_Nil: "json_ws []" by (simp add: json_ws_def)

lemma digit_char_is_digit: "is_digit (digit_char d)"
proof -
  have "d mod 10 < length ''0123456789''" by simp
  then have "''0123456789'' ! (d mod 10) \<in> set ''0123456789''" by (rule nth_mem)
  then show ?thesis by (simp only: is_digit_def digit_char_def)
qed

lemma digits_all: "list_all is_digit (digits n)"
  by (induction n rule: digits.induct) (subst digits.simps, simp add: digit_char_is_digit)

lemma digit_char_zero: "d < 10 \<Longrightarrow> digit_char d = CHR ''0'' \<Longrightarrow> d = 0"
proof -
  assume "d < 10" and h: "digit_char d = CHR ''0''"
  then have "d \<in> {0,1,2,3,4,5,6,7,8,9}" by auto
  with h show "d = 0" by (auto simp: digit_char_def)
qed

lemma digits_nonempty: "digits n \<noteq> []"
  by (subst digits.simps) simp

lemma digits_hd: "0 < n \<Longrightarrow> hd (digits n) \<noteq> CHR ''0''"
proof (induction n rule: digits.induct)
  case (1 n)
  show ?case
  proof (cases "n < 10")
    case True
    with "1.prems" digit_char_zero[of n] show ?thesis by (subst digits.simps) auto
  next
    case False
    then have "0 < n div 10" by simp
    with False "1.IH" have "hd (digits (n div 10)) \<noteq> CHR ''0''" by simp
    with False show ?thesis by (subst digits.simps) (simp add: digits_nonempty)
  qed
qed

lemma json_int_digits: "json_int (digits n)"
proof (cases "n = 0")
  case True
  then show ?thesis by (subst digits.simps) (simp add: json_int_def digit_char_def)
next
  case False
  then have "hd (digits n) \<noteq> CHR ''0''" by (simp add: digits_hd)
  moreover have "list_all is_digit (digits n)" by (rule digits_all)
  moreover obtain d ds where "digits n = d # ds" using digits_nonempty by (cases "digits n") auto
  ultimately show ?thesis by (simp add: json_int_def)
qed

lemma json_number_NumberToString: "json_number (NumberToString n)"
proof (cases "n < 0")
  case True
  have "json_number (''-'' @ digits (nat (- n)) @ [] @ [])"
    by (rule json_number.intros) (simp_all add: json_int_digits json_frac_def json_exp_def)
  with True show ?thesis by (simp add: NumberToString_def)
next
  case False
  have "json_number ([] @ digits (nat n) @ [] @ [])"
    by (rule json_number.intros) (simp_all add: json_int_digits json_frac_def json_exp_def)
  with False show ?thesis by (simp add: NumberToString_def)
qed

lemma hex_char_is_hex: "is_hex (hex_char d)"
proof -
  have "d mod 16 < length ''0123456789abcdef''" by simp
  then have "''0123456789abcdef'' ! (d mod 16) \<in> set ''0123456789abcdef''" by (rule nth_mem)
  then show ?thesis by (auto simp only: is_hex_def hex_char_def list.set)
qed

lemma is_hex_zero: "is_hex (CHR ''0'')"
  by (simp add: is_hex_def)

lemma json_chars_quote_char:
  assumes t: "json_chars t"
  shows "json_chars (quote_char c @ t)"
proof -
  have esc: "json_chars (backslash # e # t)"
    if "e \<in> set [dquote, backslash, CHR ''/'', CHR ''b'', CHR ''f'', CHR ''n'', CHR ''r'', CHR ''t'']" for e
    using that t by (rule chars_escape)
  have e1: "json_chars (backslash # CHR ''b'' # t)" by (rule esc) simp
  have e2: "json_chars (backslash # CHR ''t'' # t)" by (rule esc) simp
  have e3: "json_chars (backslash # CHR ''n'' # t)" by (rule esc) simp
  have e4: "json_chars (backslash # CHR ''f'' # t)" by (rule esc) simp
  have e5: "json_chars (backslash # CHR ''r'' # t)" by (rule esc) simp
  have e6: "json_chars (backslash # dquote # t)" by (rule esc) simp
  have e7: "json_chars (backslash # backslash # t)" by (rule esc) simp
  have u: "json_chars (backslash # CHR ''u'' # CHR ''0'' # CHR ''0'' # hex_char a # hex_char b # t)" for a b
    by (rule chars_unicode [OF is_hex_zero is_hex_zero hex_char_is_hex hex_char_is_hex t])
  have p: "json_chars (c # t)" if "c \<noteq> dquote" "c \<noteq> backslash" "\<not> (of_char c :: nat) < 0x20"
    by (rule chars_plain) (use that t in \<open>simp_all add: not_less\<close>)
  show ?thesis
    unfolding quote_char_def using e1 e2 e3 e4 e5 e6 e7 u p
    by (simp only: append_Cons append_Nil split: if_split) blast
qed

lemma json_chars_quoted: "json_chars (concat (map quote_char s))"
  by (induction s) (simp_all add: chars_end json_chars_quote_char)

lemma json_string_QuoteJSONString: "json_string (QuoteJSONString s)"
  unfolding QuoteJSONString_def by (rule json_string.intros) (rule json_chars_quoted)

lemma json_elements_join:
  "xs \<noteq> [] \<Longrightarrow> \<forall>x \<in> set xs. json_value x \<Longrightarrow> json_elements (join '','' xs)"
proof (induction "'',''" xs rule: join.induct)
  case 1
  then show ?case by simp
next
  case (2 x)
  have "json_elements ([] @ x @ [])"
    using 2 by (intro elements_one) (simp_all add: json_ws_Nil)
  then show ?case by simp
next
  case (3 x y ys)
  have "json_elements ([] @ x @ [] @ '','' @ join '','' (y # ys))"
    using 3 by (intro elements_more) (simp_all add: json_ws_Nil)
  then show ?case by simp
qed

lemma json_members_join:
  "ms \<noteq> [] \<Longrightarrow> \<forall>m \<in> set ms. member_text m \<Longrightarrow> json_members (join '','' ms)"
proof (induction "'',''" ms rule: join.induct)
  case 1
  then show ?case by simp
next
  case (2 m)
  then obtain k t where m: "m = QuoteJSONString k @ '':'' @ t" and t: "json_value t"
    by (auto simp: member_text_def)
  have "json_members ([] @ QuoteJSONString k @ [] @ '':'' @ [] @ t @ [])"
    using t by (intro members_one) (simp_all add: json_ws_Nil json_string_QuoteJSONString)
  with m show ?case by simp
next
  case (3 m y ys)
  then obtain k t where m: "m = QuoteJSONString k @ '':'' @ t" and t: "json_value t"
    by (auto simp: member_text_def)
  have "json_members ([] @ QuoteJSONString k @ [] @ '':'' @ [] @ t @ [] @ '','' @ join '','' (y # ys))"
    using t 3 by (intro members_more) (simp_all add: json_ws_Nil json_string_QuoteJSONString)
  with m show ?case by simp
qed

lemma SerializeJSONProperty_json_value:
  "SerializeJSONProperty v = Some t \<Longrightarrow> json_value t"
proof (induction v arbitrary: t)
  case JUndefined
  then show ?case by simp
next
  case JNull
  then show ?case by (auto simp: value_null)
next
  case (JBool b)
  then show ?case by (cases b) (auto simp: value_true value_false)
next
  case (JNum n)
  then show ?case by (auto simp: value_number json_number_NumberToString)
next
  case (JStr s)
  then show ?case by (auto simp: value_string json_string_QuoteJSONString)
next
  case (JArr vs)
  let ?el = "\<lambda>v. case SerializeJSONProperty v of None \<Rightarrow> ''null'' | Some t \<Rightarrow> t"
  have t: "t = ''['' @ join '','' (map ?el vs) @ '']''" using JArr.prems by simp
  have "json_value (?el x)" if "x \<in> set vs" for x
  proof (cases "SerializeJSONProperty x")
    case None
    then show ?thesis by (simp add: value_null)
  next
    case (Some u)
    with JArr.IH [OF that Some] show ?thesis by simp
  qed
  then have el: "\<forall>x \<in> set (map ?el vs). json_value x" by simp
  have "json_array (''['' @ join '','' (map ?el vs) @ '']'')"
  proof (cases "vs = []")
    case True
    have "json_array (''['' @ [] @ '']'')" by (rule array_empty) (rule json_ws_Nil)
    with True show ?thesis by simp
  next
    case False
    then have "map ?el vs \<noteq> []" by simp
    then have "json_elements (join '','' (map ?el vs))" using el by (rule json_elements_join)
    then show ?thesis by (rule array_elements)
  qed
  with t show ?case by (simp only: value_array)
next
  case (JObj kvs)
  let ?mem = "\<lambda>(k, v). case SerializeJSONProperty v of None \<Rightarrow> [] | Some t \<Rightarrow> [QuoteJSONString k @ '':'' @ t]"
  let ?ms = "concat (map ?mem kvs)"
  have t: "t = ''{'' @ join '','' ?ms @ ''}''" using JObj.prems by simp
  have "member_text m" if "m \<in> set ?ms" for m
  proof -
    from that obtain k v where kv: "(k, v) \<in> set kvs" and m: "m \<in> set (?mem (k, v))"
      by auto
    from m obtain u where u: "SerializeJSONProperty v = Some u" and mu: "m = QuoteJSONString k @ '':'' @ u"
      by (cases "SerializeJSONProperty v") auto
    have "v \<in> Basic_BNFs.snds (k, v)" by simp
    from JObj.IH [OF kv this u] have "json_value u" .
    with mu show ?thesis unfolding member_text_def by blast
  qed
  then have ms: "\<forall>m \<in> set ?ms. member_text m" by blast
  have "json_object (''{'' @ join '','' ?ms @ ''}'')"
  proof (cases "?ms = []")
    case True
    have "json_object (''{'' @ [] @ ''}'')" by (rule object_empty) (rule json_ws_Nil)
    then show ?thesis by (simp only: True join.simps)
  next
    case False
    then have "json_members (join '','' ?ms)" using ms by (rule json_members_join)
    then show ?thesis by (rule object_members)
  qed
  with t show ?case by (simp only: value_object)
qed

lemma SerializeJSONProperty_array:
  "\<exists>t. SerializeJSONProperty (JArr vs) = Some t \<and> json_array t"
proof -
  let ?el = "\<lambda>v. case SerializeJSONProperty v of None \<Rightarrow> ''null'' | Some t \<Rightarrow> t"
  have "json_value (?el x)" for x
    by (cases "SerializeJSONProperty x") (simp_all add: value_null SerializeJSONProperty_json_value)
  then have el: "\<forall>x \<in> set (map ?el vs). json_value x" by simp
  have "json_array (''['' @ join '','' (map ?el vs) @ '']'')"
  proof (cases "vs = []")
    case True
    have "json_array (''['' @ [] @ '']'')" by (rule array_empty) (rule json_ws_Nil)
    with True show ?thesis by simp
  next
    case False
    then have "map ?el vs \<noteq> []" by simp
    then have "json_elements (join '','' (map ?el vs))" using el by (rule json_elements_join)
    then show ?thesis by (rule array_elements)
  qed
  then show ?thesis by simp
qed

lemma serialized_array_text_first:
  assumes "serialized_array_text s"
  shows "\<exists>c r. s = c # r \<and> c \<in> set [CHR ''['', CHR 0x20, CHR 0x09, CHR 0x0A, CHR 0x0D]"
  using assms
proof cases
  case (array_text w1 a w2)
  from array_text(3) obtain r where a: "a = CHR ''['' # r"
    by cases auto
  show ?thesis
  proof (cases w1)
    case Nil
    with a array_text(1) show ?thesis by simp
  next
    case (Cons c cs)
    with array_text(1,2) show ?thesis by (auto simp: json_ws_def)
  qed
qed

lemma not_array_text: "\<not> serialized_array_text ''not json''"
  using serialized_array_text_first [of "''not json''"] by auto

lemma not_array_text_k1: "\<not> serialized_array_text text_k1"
  using serialized_array_text_first [of text_k1] by (auto simp: text_k1_def)

section \<open>The document built from a row\<close>

lemma normalize_collection:
  "collection_text src (if typeof src = ''string'' then src else JSON_stringify (js_or src (JArr [])))"
proof (cases "typeof src = ''string''")
  case True
  then obtain s where "src = JStr s" by (cases src) simp_all
  then show ?thesis by (simp add: collection_text_def absent_def)
next
  case False
  show ?thesis
  proof (cases "truthy src")
    case t: True
    then obtain u where u: "SerializeJSONProperty src = Some u" by (cases src) simp_all
    then have jv: "json_value u" by (rule SerializeJSONProperty_json_value)
    have arr: "serialized_array_text u" if "src = JArr vs" for vs
    proof -
      from SerializeJSONProperty_array [of vs] that u have "json_array u" by simp
      then have "serialized_array_text ([] @ u @ [])"
        by (intro serialized_array_text.intros json_ws_Nil)
      then show ?thesis by simp
    qed
    from False t u jv arr show ?thesis
      by (auto simp: collection_text_def absent_def js_or_def JSON_stringify_def)
  next
    case f: False
    have "json_array (''['' @ [] @ '']'')" by (rule array_empty) (rule json_ws_Nil)
    then have ja: "json_array ''[]''" by simp
    then have "serialized_array_text ([] @ ''[]'' @ [])"
      by (intro serialized_array_text.intros json_ws_Nil)
    then have sa: "serialized_array_text ''[]''" by simp
    from ja have jv: "json_value ''[]''" by (rule value_array)
    from False f sa jv show ?thesis
      by (auto simp: collection_text_def absent_def js_or_def JSON_stringify_def)
  qed
qed

lemma collection_text_unique:
  assumes "collection_text src out" and "collection_text src out'"
  shows "out = out'"
proof (cases "typeof src = ''string''")
  case True
  then obtain s where "src = JStr s" by (cases src) simp_all
  with assms show ?thesis by (simp add: collection_text_def)
next
  case False
  with assms show ?thesis by (cases "truthy src") (simp_all add: collection_text_def)
qed

lemma normalize_default: "numeric_default src (js_or src (JNum 0))"
  by (auto simp: numeric_default_def js_or_def absent_def)

lemma document_of_toStoredObservation: "document_of obs (toStoredObservation obs)"
  unfolding document_of_def
  by (simp add: toStoredObservation_def normalize_collection normalize_default)

section \<open>The callback never throws on an object\<close>

lemma then_do_Inr: "then_do (Inr x) f = f x"
  by (simp add: then_do_def)

lemma get_member_object: "get_member (JObj kvs) k = Inr (own_property kvs k)"
  by (simp add: get_member_def)

lemma collection_expr_object:
  "collection_expr (JObj kvs) k =
     Inr (if typeof (own_property kvs k) = ''string'' then own_property kvs k
          else JSON_stringify (js_or (own_property kvs k) (JArr [])))"
  by (simp add: collection_expr_def get_member_object then_do_Inr)

lemma default_expr_object:
  "default_expr (JObj kvs) k = Inr (js_or (own_property kvs k) (JNum 0))"
  by (simp add: default_expr_def get_member_object then_do_Inr)

lemma toStoredObservation_js_object:
  "toStoredObservation_js (JObj kvs) = Inr (toStoredObservation (row_of kvs))"
  by (simp add: toStoredObservation_js_def get_member_object collection_expr_object
      default_expr_object then_do_Inr toStoredObservation_def row_of_def)

lemma array_map_objects:
  "array_map toStoredObservation_js (map JObj rows) =
     Inr (map (\<lambda>kvs. toStoredObservation (row_of kvs)) rows)"
  by (induction rows) (simp_all add: toStoredObservation_js_object)

text \<open>The error result is not idle: the callback throws on a row that is \<^verbatim>\<open>undefined\<close> or
  \<^verbatim>\<open>null\<close>, at its first property read, and on no other value.\<close>

lemma toStoredObservation_js_throws:
  "toStoredObservation_js JUndefined =
     Inl (Error ''TypeError: Cannot read properties of undefined, reading id'')"
  "toStoredObservation_js JNull =
     Inl (Error ''TypeError: Cannot read properties of null, reading id'')"
  by (simp_all add: toStoredObservation_js_def get_member_def then_do_def)

lemma get_member_other:
  "v \<noteq> JUndefined \<Longrightarrow> v \<noteq> JNull \<Longrightarrow> \<exists>w. get_member v k = Inr w"
  by (cases v) (simp_all add: get_member_def)

lemma toStoredObservation_js_throws_iff:
  "(\<exists>e. toStoredObservation_js v = Inl e) \<longleftrightarrow> v = JUndefined \<or> v = JNull"
proof (cases v)
  case JUndefined
  then show ?thesis by (simp add: toStoredObservation_js_throws)
next
  case JNull
  then show ?thesis by (simp add: toStoredObservation_js_throws)
next
  case (JBool b)
  then show ?thesis
    by (simp add: toStoredObservation_js_def collection_expr_def default_expr_def
        get_member_def then_do_def)
next
  case (JNum n)
  then show ?thesis
    by (simp add: toStoredObservation_js_def collection_expr_def default_expr_def
        get_member_def then_do_def)
next
  case (JStr s)
  then show ?thesis
    by (simp add: toStoredObservation_js_def collection_expr_def default_expr_def
        get_member_def then_do_def)
next
  case (JArr vs)
  then show ?thesis
    by (simp add: toStoredObservation_js_def collection_expr_def default_expr_def
        get_member_def then_do_def)
next
  case (JObj kvs)
  then show ?thesis by (simp add: toStoredObservation_js_object)
qed

section \<open>Unfolding the handler\<close>

lemmas handler_unfold = handleSyncObservations_def get_prop_def Let_def

lemmas fixtures = odd_body_def store_returning_def store_throwing_def chroma_reporting_def
  chroma_rejecting_def five_rows_def

lemma handler_invalid:
  assumes "\<not> truthy (get_prop body ''ids'') \<or> \<not> isArray (get_prop body ''ids'')
             \<or> array_length (get_prop body ''ids'') = 0"
  shows "handleSyncObservations getObservationsByIds syncStoredObservations body =
           (BadRequest ''ids array is required'', [])"
  using assms by (simp add: handleSyncObservations_def Let_def)

section \<open>The properties\<close>

text \<open>
  C1, as the code has it. For every row, each of the four collection fields of the document
  (facts, concepts, files_read, files_modified) is a string, never a structured value and
  never \<^verbatim>\<open>null\<close> or \<^verbatim>\<open>undefined\<close>. A string is passed through unchanged, whatever it holds.
  An absent value, like every other value that is falsy and not a string (\<^verbatim>\<open>false\<close>, \<^verbatim>\<open>0\<close>),
  gives the text \<^verbatim>\<open>[]\<close>. An array gives what \<^verbatim>\<open>JSON.stringify\<close> writes for it, which is a
  JSON array text. Any other truthy value that is not a string (\<^verbatim>\<open>true\<close>, a number other
  than 0, an object) gives what \<^verbatim>\<open>JSON.stringify\<close> writes for it, which is a JSON text.
\<close>

theorem C1_collection_fields:
  "collection_text (obs_facts obs) (stored_facts (toStoredObservation obs)) \<and>
   collection_text (obs_concepts obs) (stored_concepts (toStoredObservation obs)) \<and>
   collection_text (obs_files_read obs) (stored_files_read (toStoredObservation obs)) \<and>
   collection_text (obs_files_modified obs) (stored_files_modified (toStoredObservation obs))"
  by (simp add: toStoredObservation_def normalize_collection)

theorem C1_collection_fields_witness:
  "stored_facts (toStoredObservation mixed_row) = JStr text_ab \<and>
   serialized_array_text text_ab \<and>
   stored_concepts (toStoredObservation mixed_row) = JStr ''x'' \<and>
   stored_files_read (toStoredObservation mixed_row) = JStr text_k1 \<and>
   json_value text_k1 \<and>
   stored_files_modified (toStoredObservation mixed_row) = JStr ''[]'' \<and>
   stored_facts (toStoredObservation (bare_row\<lparr>obs_facts := JBool False\<rparr>)) = JStr ''[]'' \<and>
   stored_facts (toStoredObservation (bare_row\<lparr>obs_facts := JNum 0\<rparr>)) = JStr ''[]''"
proof -
  have ab: "JSON_stringify (JArr [JStr ''a'', JStr ''b'']) = JStr text_ab"
    by (simp add: JSON_stringify_def QuoteJSONString_def quote_char_def text_ab_def
        dquote_def backslash_def)
  have k1: "JSON_stringify (JObj [(''k'', JNum 1)]) = JStr text_k1"
    by (simp add: JSON_stringify_def QuoteJSONString_def quote_char_def NumberToString_def
        digits.simps digit_char_def text_k1_def dquote_def backslash_def)
  have fields: "obs_facts mixed_row = JArr [JStr ''a'', JStr ''b'']"
    "obs_concepts mixed_row = JStr ''x''"
    "obs_files_read mixed_row = JObj [(''k'', JNum 1)]"
    "obs_files_modified mixed_row = JNull"
    by (simp_all add: mixed_row_def)
  from C1_collection_fields [of mixed_row]
  have "stored_facts (toStoredObservation mixed_row) = JStr text_ab \<and>
      serialized_array_text text_ab \<and>
      stored_concepts (toStoredObservation mixed_row) = JStr ''x'' \<and>
      stored_files_read (toStoredObservation mixed_row) = JStr text_k1 \<and>
      json_value text_k1 \<and>
      stored_files_modified (toStoredObservation mixed_row) = JStr ''[]''"
    by (auto simp: collection_text_def absent_def fields ab k1)
  moreover
  from C1_collection_fields [of "bare_row\<lparr>obs_facts := JBool False\<rparr>"]
  have "stored_facts (toStoredObservation (bare_row\<lparr>obs_facts := JBool False\<rparr>)) = JStr ''[]''"
    by (simp add: collection_text_def)
  moreover
  from C1_collection_fields [of "bare_row\<lparr>obs_facts := JNum 0\<rparr>"]
  have "stored_facts (toStoredObservation (bare_row\<lparr>obs_facts := JNum 0\<rparr>)) = JStr ''[]''"
    by (simp add: collection_text_def)
  ultimately show ?thesis by simp
qed

text \<open>
  C1 as stated fails: a row whose facts column holds a string that is no array text keeps
  that string, and a row whose files_read holds an object gets the text of the object, so
  neither document field is serialized-array text.
\<close>

theorem C1_counterexample:
  "stored_facts (toStoredObservation (bare_row\<lparr>obs_facts := JStr ''not json''\<rparr>)) = JStr ''not json'' \<and>
   \<not> serialized_array_text ''not json'' \<and>
   stored_files_read (toStoredObservation (bare_row\<lparr>obs_files_read := JObj [(''k'', JNum 1)]\<rparr>)) =
     JStr text_k1 \<and>
   \<not> serialized_array_text text_k1"
proof -
  have "stored_facts (toStoredObservation (bare_row\<lparr>obs_facts := JStr ''not json''\<rparr>)) =
      JStr ''not json''"
    by (simp add: toStoredObservation_def)
  moreover
  have "stored_files_read (toStoredObservation (bare_row\<lparr>obs_files_read := JObj [(''k'', JNum 1)]\<rparr>)) =
      JStr text_k1"
    by (simp add: toStoredObservation_def bare_row_def js_or_def JSON_stringify_def
        QuoteJSONString_def quote_char_def NumberToString_def digits.simps digit_char_def
        dquote_def backslash_def text_k1_def)
  ultimately show ?thesis
    by (simp only: not_array_text not_array_text_k1 not_False_eq_True simp_thms)
qed

text \<open>
  C2. When the request has no ids, or ids is not an array, or ids is the empty array, the
  handler answers with the bad request \<^verbatim>\<open>ids array is required\<close> and makes no call at all:
  neither the datastore nor the embedding subsystem is invoked, whatever they are.
\<close>

theorem C2_invalid_ids:
  assumes "body ''ids'' = None
             \<or> (\<exists>v. body ''ids'' = Some v \<and> \<not> isArray v)
             \<or> body ''ids'' = Some (JArr [])"
  shows "fst (handleSyncObservations getObservationsByIds syncStoredObservations body) =
           BadRequest ''ids array is required'' \<and>
         snd (handleSyncObservations getObservationsByIds syncStoredObservations body) = []"
proof -
  from assms have "\<not> truthy (get_prop body ''ids'') \<or> \<not> isArray (get_prop body ''ids'')
             \<or> array_length (get_prop body ''ids'') = 0"
    by (auto simp: get_prop_def)
  then show ?thesis by (simp add: handler_invalid)
qed

theorem C2_invalid_ids_witness:
  "fst (handleSyncObservations (store_returning [bare_row]) (chroma_reporting 1) Map.empty) =
     BadRequest ''ids array is required'' \<and>
   snd (handleSyncObservations (store_returning [bare_row]) (chroma_reporting 1) Map.empty) = [] \<and>
   fst (handleSyncObservations (store_returning [bare_row]) (chroma_reporting 1)
          [''ids'' \<mapsto> JStr ''1,2'']) = BadRequest ''ids array is required'' \<and>
   snd (handleSyncObservations (store_returning [bare_row]) (chroma_reporting 1)
          [''ids'' \<mapsto> JStr ''1,2'']) = [] \<and>
   fst (handleSyncObservations (store_returning [bare_row]) (chroma_reporting 1)
          [''ids'' \<mapsto> JArr []]) = BadRequest ''ids array is required'' \<and>
   snd (handleSyncObservations (store_returning [bare_row]) (chroma_reporting 1)
          [''ids'' \<mapsto> JArr []]) = []"
  using C2_invalid_ids [of Map.empty "store_returning [bare_row]" "chroma_reporting 1"]
        C2_invalid_ids [of "[''ids'' \<mapsto> JStr ''1,2'']" "store_returning [bare_row]" "chroma_reporting 1"]
        C2_invalid_ids [of "[''ids'' \<mapsto> JArr []]" "store_returning [bare_row]" "chroma_reporting 1"]
  by simp

text \<open>
  C3, as the code has it. For a non-empty array of ids the handler makes exactly one read of
  the datastore, with these ids; it then makes one call of the embedding subsystem when the
  read returned at least one row, and none when the read returned no row or threw. Apart from
  logger calls it does nothing else.
\<close>

theorem C3_reads_and_writes:
  assumes "body ''ids'' = Some (JArr (x # xs))"
  shows "filter (\<lambda>ev. \<not> is_log ev)
           (snd (handleSyncObservations getObservationsByIds syncStoredObservations body)) =
         GetObservationsByIds (JArr (x # xs)) (JObj []) #
           (case getObservationsByIds (JArr (x # xs)) (JObj []) of
              Inl e \<Rightarrow> []
            | Inr observations \<Rightarrow>
                if observations = [] then []
                else [SyncStoredObservations (map toStoredObservation observations)])"
  using assms
  by (simp add: handler_unfold catch_block_def split: sum.splits)

theorem C3_reads_and_writes_witness:
  "filter (\<lambda>ev. \<not> is_log ev)
     (snd (handleSyncObservations (store_returning five_rows) (chroma_reporting 3) odd_body)) =
   [GetObservationsByIds (JArr [JNum (- 1), JStr ''x'', JNum 2, JNum 2, JNull]) (JObj []),
    SyncStoredObservations (map toStoredObservation five_rows)] \<and>
   filter (\<lambda>ev. \<not> is_log ev)
     (snd (handleSyncObservations (store_returning five_rows) (chroma_rejecting ''down'') odd_body)) =
   [GetObservationsByIds (JArr [JNum (- 1), JStr ''x'', JNum 2, JNum 2, JNull]) (JObj []),
    SyncStoredObservations (map toStoredObservation five_rows)] \<and>
   filter (\<lambda>ev. \<not> is_log ev)
     (snd (handleSyncObservations (store_throwing ''locked'') (chroma_reporting 3) odd_body)) =
   [GetObservationsByIds (JArr [JNum (- 1), JStr ''x'', JNum 2, JNum 2, JNull]) (JObj [])]"
  using C3_reads_and_writes [where body = odd_body and x = "JNum (- 1)"
      and xs = "[JStr ''x'', JNum 2, JNum 2, JNull]"
      and getObservationsByIds = "store_returning five_rows"
      and syncStoredObservations = "chroma_reporting 3"]
    C3_reads_and_writes [where body = odd_body and x = "JNum (- 1)"
      and xs = "[JStr ''x'', JNum 2, JNum 2, JNull]"
      and getObservationsByIds = "store_returning five_rows"
      and syncStoredObservations = "chroma_rejecting ''down''"]
    C3_reads_and_writes [where body = odd_body and x = "JNum (- 1)"
      and xs = "[JStr ''x'', JNum 2, JNum 2, JNull]"
      and getObservationsByIds = "store_throwing ''locked''"
      and syncStoredObservations = "chroma_reporting 3"]
  by (simp add: fixtures)

text \<open>
  C3 as stated fails: with valid ids and a datastore that finds no row, the handler makes no
  call of the embedding subsystem, not exactly one.
\<close>

theorem C3_counterexample:
  "writes (snd (handleSyncObservations (store_returning []) (chroma_reporting 0) odd_body)) = [] \<and>
   \<not> (length (reads (snd (handleSyncObservations (store_returning []) (chroma_reporting 0) odd_body))) = 1 \<and>
      length (writes (snd (handleSyncObservations (store_returning []) (chroma_reporting 0) odd_body))) = 1)"
  by (simp add: handler_unfold fixtures reads_def writes_def)

text \<open>
  C4. The transformation is total on raw records. Written with the thrown error as a possible
  result, the callback returns a document, and never an error, for every object row, whatever
  properties the object has or lacks and whatever they hold (absent, structured, text or
  anything else); that document is the one of the record of the row, and it is the document
  that the properties of the row determine, field by field. Mapping the callback over any list
  of object rows returns the list of their documents, one for each row, in order. The callback
  is a function of its row alone.
\<close>

theorem C4_transformation_total:
  "toStoredObservation_js (JObj kvs) = Inr (toStoredObservation (row_of kvs)) \<and>
   document_of (row_of kvs) (toStoredObservation (row_of kvs)) \<and>
   array_map toStoredObservation_js (map JObj rows) =
     Inr (map (\<lambda>kvs. toStoredObservation (row_of kvs)) rows)"
  by (simp add: toStoredObservation_js_object document_of_toStoredObservation array_map_objects)

theorem C4_transformation_total_witness:
  "toStoredObservation_js (JObj mixed_props) =
     Inr \<lparr> stored_id = JNum 1, stored_memory_session_id = JUndefined,
           stored_project = JUndefined, stored_text = JNull, stored_type = JUndefined,
           stored_title = JStr ''t'', stored_subtitle = JUndefined,
           stored_facts = JStr text_ab, stored_narrative = JUndefined,
           stored_concepts = JStr ''x'', stored_files_read = JStr ''[]'',
           stored_files_modified = JStr ''[]'', stored_prompt_number = JNum 7,
           stored_discovery_tokens = JNum 0, stored_created_at = JUndefined,
           stored_created_at_epoch = JUndefined \<rparr> \<and>
   array_map toStoredObservation_js [JObj mixed_props, JObj []] =
     Inr [toStoredObservation (row_of mixed_props), toStoredObservation (row_of [])]"
proof -
  have doc: "toStoredObservation (row_of mixed_props) =
     \<lparr> stored_id = JNum 1, stored_memory_session_id = JUndefined,
       stored_project = JUndefined, stored_text = JNull, stored_type = JUndefined,
       stored_title = JStr ''t'', stored_subtitle = JUndefined,
       stored_facts = JStr text_ab, stored_narrative = JUndefined,
       stored_concepts = JStr ''x'', stored_files_read = JStr ''[]'',
       stored_files_modified = JStr ''[]'', stored_prompt_number = JNum 7,
       stored_discovery_tokens = JNum 0, stored_created_at = JUndefined,
       stored_created_at_epoch = JUndefined \<rparr>"
    by (simp add: toStoredObservation_def row_of_def own_property_def mixed_props_def js_or_def
        JSON_stringify_def QuoteJSONString_def quote_char_def text_ab_def dquote_def
        backslash_def)
  have "toStoredObservation_js (JObj mixed_props) = Inr (toStoredObservation (row_of mixed_props))"
    and "array_map toStoredObservation_js [JObj mixed_props, JObj []] =
      Inr [toStoredObservation (row_of mixed_props), toStoredObservation (row_of [])]"
    using C4_transformation_total [of mixed_props "[mixed_props, []]"]
    unfolding list.map by blast+
  then show ?thesis by (simp only: doc simp_thms)
qed

text \<open>
  C5. A facts field holding the list of \<^verbatim>\<open>a\<close> and \<^verbatim>\<open>b\<close> becomes the text \<^verbatim>\<open>["a","b"]\<close>; a
  facts field that already holds this text, or any other string, is left as it is and not
  quoted again.
\<close>

theorem C5_no_double_encoding:
  "stored_facts (toStoredObservation (obs\<lparr>obs_facts := JArr [JStr ''a'', JStr ''b'']\<rparr>)) = JStr text_ab \<and>
   stored_facts (toStoredObservation (obs\<lparr>obs_facts := JStr text_ab\<rparr>)) = JStr text_ab \<and>
   stored_facts (toStoredObservation (obs\<lparr>obs_facts := JStr s\<rparr>)) = JStr s"
  by (simp add: toStoredObservation_def js_or_def JSON_stringify_def QuoteJSONString_def
        quote_char_def text_ab_def dquote_def backslash_def)

text \<open>
  C6. When the ids are a non-empty array and the datastore returns no row, the response is
  the success with \<^verbatim>\<open>embeddedCount\<close> 0 and a message, and the embedding subsystem is not
  called.
\<close>

theorem C6_zero_records:
  assumes "body ''ids'' = Some (JArr (x # xs))"
    and "getObservationsByIds (JArr (x # xs)) (JObj []) = Inr []"
  shows "fst (handleSyncObservations getObservationsByIds syncStoredObservations body) =
           ResJson (JObj [(''success'', JBool True), (''embeddedCount'', JNum 0),
                          (''message'', JStr ''No observations found for given IDs'')]) \<and>
         writes (snd (handleSyncObservations getObservationsByIds syncStoredObservations body)) = []"
  using assms by (simp add: handler_unfold writes_def)

theorem C6_zero_records_witness:
  "fst (handleSyncObservations (store_returning []) (chroma_reporting 0) odd_body) =
     ResJson (JObj [(''success'', JBool True), (''embeddedCount'', JNum 0),
                    (''message'', JStr ''No observations found for given IDs'')]) \<and>
   writes (snd (handleSyncObservations (store_returning []) (chroma_reporting 0) odd_body)) = []"
  using C6_zero_records [where body = odd_body and x = "JNum (- 1)"
      and xs = "[JStr ''x'', JNum 2, JNum 2, JNull]"
      and getObservationsByIds = "store_returning []"
      and syncStoredObservations = "chroma_reporting 0"]
  by (simp add: fixtures)

text \<open>
  C7. When the datastore lookup throws, the handler answers with a server error that carries
  the message of the thrown error, and the embedding subsystem is not called; the handler
  still returns a response.
\<close>

theorem C7_lookup_throws:
  assumes "body ''ids'' = Some (JArr (x # xs))"
    and "getObservationsByIds (JArr (x # xs)) (JObj []) = Inl (Error m)"
  shows "fst (handleSyncObservations getObservationsByIds syncStoredObservations body) =
           ServerError (''Sync failed: '' @ m) \<and>
         writes (snd (handleSyncObservations getObservationsByIds syncStoredObservations body)) = []"
  using assms by (simp add: handler_unfold writes_def catch_block_def)

theorem C7_lookup_throws_witness:
  "fst (handleSyncObservations (store_throwing ''database is locked'') (chroma_reporting 0) odd_body) =
     ServerError ''Sync failed: database is locked'' \<and>
   writes (snd (handleSyncObservations (store_throwing ''database is locked'') (chroma_reporting 0)
     odd_body)) = []"
  using C7_lookup_throws [where body = odd_body and x = "JNum (- 1)"
      and xs = "[JStr ''x'', JNum 2, JNum 2, JNull]"
      and getObservationsByIds = "store_throwing ''database is locked''"
      and syncStoredObservations = "chroma_reporting 0"
      and m = "''database is locked''"]
  by (simp add: fixtures)

text \<open>
  C8. The count that the embedding subsystem reports is returned unchanged in a success
  response, also when it is lower than the number of rows (3 of 5).
\<close>

theorem C8_count_unchanged:
  assumes "body ''ids'' = Some (JArr (x # xs))"
    and "getObservationsByIds (JArr (x # xs)) (JObj []) = Inr observations"
    and "observations \<noteq> []"
    and "syncStoredObservations (map toStoredObservation observations) = Inr embeddedCount"
  shows "fst (handleSyncObservations getObservationsByIds syncStoredObservations body) =
           ResJson (JObj [(''success'', JBool True), (''embeddedCount'', JNum embeddedCount)])"
  using assms by (simp add: handler_unfold)

theorem C8_count_unchanged_witness:
  "length five_rows = 5 \<and>
   fst (handleSyncObservations (store_returning five_rows) (chroma_reporting 3) odd_body) =
     ResJson (JObj [(''success'', JBool True), (''embeddedCount'', JNum 3)])"
  using C8_count_unchanged [where body = odd_body and x = "JNum (- 1)"
      and xs = "[JStr ''x'', JNum 2, JNum 2, JNull]"
      and getObservationsByIds = "store_returning five_rows"
      and syncStoredObservations = "chroma_reporting 3"
      and observations = five_rows and embeddedCount = 3]
  by (simp add: fixtures)

text \<open>
  C9. When prompt_number and discovery_tokens are absent from a row, both are 0 in the
  document.
\<close>

theorem C9_numeric_defaults:
  assumes "absent (obs_prompt_number obs)" and "absent (obs_discovery_tokens obs)"
  shows "stored_prompt_number (toStoredObservation obs) = JNum 0 \<and>
         stored_discovery_tokens (toStoredObservation obs) = JNum 0"
  using assms by (auto simp: toStoredObservation_def absent_def js_or_def)

theorem C9_numeric_defaults_witness:
  "stored_prompt_number (toStoredObservation bare_row) = JNum 0 \<and>
   stored_discovery_tokens (toStoredObservation bare_row) = JNum 0"
  using C9_numeric_defaults [of bare_row]
  by (simp add: absent_def bare_row_def)

text \<open>
  C10. Validation looks at nothing but ids being a non-empty array: for every such array,
  whatever its elements, the request is not refused and the datastore is called with the
  very same array (same elements, same order, duplicates kept).
\<close>

theorem C10_ids_forwarded:
  assumes "body ''ids'' = Some (JArr (x # xs))"
  shows "fst (handleSyncObservations getObservationsByIds syncStoredObservations body) \<noteq>
           BadRequest ''ids array is required'' \<and>
         reads (snd (handleSyncObservations getObservationsByIds syncStoredObservations body)) =
           [GetObservationsByIds (JArr (x # xs)) (JObj [])]"
  using assms
  by (simp add: handler_unfold reads_def catch_block_def split: sum.splits)

theorem C10_ids_forwarded_witness:
  "fst (handleSyncObservations (store_returning five_rows) (chroma_reporting 3) odd_body) \<noteq>
     BadRequest ''ids array is required'' \<and>
   reads (snd (handleSyncObservations (store_returning five_rows) (chroma_reporting 3) odd_body)) =
     [GetObservationsByIds (JArr [JNum (- 1), JStr ''x'', JNum 2, JNum 2, JNull]) (JObj [])]"
  using C10_ids_forwarded [where body = odd_body and x = "JNum (- 1)"
      and xs = "[JStr ''x'', JNum 2, JNum 2, JNull]"
      and getObservationsByIds = "store_returning five_rows"
      and syncStoredObservations = "chroma_reporting 3"]
  by (simp add: fixtures)

end
